theory Spec2Isabelle
  imports Complex_Main
begin

section \<open>Amounts and rounding\<close>

text \<open>
  Monetary amounts are the exact rational numbers that the Python expressions denote:
  \<^verbatim>\<open>+\<close>, \<^verbatim>\<open>-\<close>, \<^verbatim>\<open>*\<close>, \<^verbatim>\<open>/\<close> and \<^verbatim>\<open>sum\<close> are the operations
  of \<^typ>\<open>rat\<close>. The program computes with binary floating point; its representation
  error is outside this model, and every statement below about amounts is a statement
  about the exact values. \<^verbatim>\<open>round(x, 2)\<close> rounds to the nearest multiple of 0.01 and, on
  a tie, to the neighbour whose last digit is even, which is what \<open>round2\<close> computes.
\<close>

definition round_half_even :: "rat \<Rightarrow> int" where
  "round_half_even y =
     (let f = \<lfloor>y\<rfloor>; r = y - of_int f
      in if r < 1 / 2 then f
         else if 1 / 2 < r then f + 1
         else if even f then f else f + 1)"

definition round2 :: "rat \<Rightarrow> rat" where
  "round2 x = of_int (round_half_even (x * 100)) / 100"


section \<open>Discount allocation\<close>

text \<open>
  A cart item is the dictionary with the keys \<^verbatim>\<open>product_id\<close>, \<^verbatim>\<open>quantity\<close>,
  \<^verbatim>\<open>unit_price\<close> and \<^verbatim>\<open>total_price\<close>.
\<close>

record line_item =
  li_product_id :: int
  li_quantity :: int
  li_unit_price :: rat
  li_total_price :: rat

text \<open>\<^verbatim>\<open>discount or 0\<close>: a missing discount counts as zero.\<close>

definition discount_or_0 :: "rat option \<Rightarrow> rat" where
  "discount_or_0 discount = (case discount of None \<Rightarrow> 0 | Some d \<Rightarrow> d)"

text \<open>
  The factor chosen before the loop of both allocators:
  \<^verbatim>\<open>
  if total_before > 0 and (discount or 0) > 0:
      factor = (final_total) / total_before if total_before > 0 else 1.0
  else:
      factor = 1.0
  \<close>
\<close>

definition discount_factor :: "rat \<Rightarrow> rat \<Rightarrow> rat option \<Rightarrow> rat" where
  "discount_factor total_before final_total discount =
     (if 0 < total_before \<and> 0 < discount_or_0 discount
      then (if 0 < total_before then final_total / total_before else 1)
      else 1)"

text \<open>\<^verbatim>\<open>adj_unit = (adj_total / item['quantity']) if item['quantity'] else 0\<close>\<close>

definition adj_unit_of :: "rat \<Rightarrow> int \<Rightarrow> rat" where
  "adj_unit_of adj_total quantity =
     (if quantity \<noteq> 0 then adj_total / of_int quantity else 0)"

text \<open>
  The loop of \<^verbatim>\<open>distribute_discount_tuples\<close> over the items that are left, with the
  running value of \<^verbatim>\<open>remaining\<close>. The test \<^verbatim>\<open>idx < len(items) - 1\<close> fails exactly
  at the last item, which is the one-element case here.
\<close>

fun tuples_loop :: "rat \<Rightarrow> rat \<Rightarrow> line_item list \<Rightarrow> (line_item \<times> rat \<times> rat) list" where
  "tuples_loop factor remaining [] = []"
| "tuples_loop factor remaining [item] =
     (let adj_total = round2 remaining;
          adj_unit = adj_unit_of adj_total (li_quantity item)
      in [(item, adj_unit, adj_total)])"
| "tuples_loop factor remaining (item # rest) =
     (let adj_total = round2 (li_total_price item * factor);
          remaining' = remaining - adj_total;
          adj_unit = adj_unit_of adj_total (li_quantity item)
      in (item, adj_unit, adj_total) # tuples_loop factor remaining' rest)"

definition distribute_discount_tuples ::
    "line_item list \<Rightarrow> rat option \<Rightarrow> (line_item \<times> rat \<times> rat) list \<times> rat" where
  "distribute_discount_tuples items discount =
     (let total_before = sum_list (map li_total_price items);
          final_total = max 0 (total_before - discount_or_0 discount);
          factor = discount_factor total_before final_total discount
      in (tuples_loop factor final_total items, final_total))"

text \<open>
  \<^verbatim>\<open>distribute_discount_dicts\<close> runs the same loop and appends a new dictionary with the
  item's \<^verbatim>\<open>product_id\<close> and \<^verbatim>\<open>quantity\<close> and the adjusted prices.
\<close>

fun dicts_loop :: "rat \<Rightarrow> rat \<Rightarrow> line_item list \<Rightarrow> line_item list" where
  "dicts_loop factor remaining [] = []"
| "dicts_loop factor remaining [item] =
     (let adj_total = round2 remaining;
          adj_unit = adj_unit_of adj_total (li_quantity item)
      in [\<lparr>li_product_id = li_product_id item, li_quantity = li_quantity item,
           li_unit_price = adj_unit, li_total_price = adj_total\<rparr>])"
| "dicts_loop factor remaining (item # rest) =
     (let adj_total = round2 (li_total_price item * factor);
          remaining' = remaining - adj_total;
          adj_unit = adj_unit_of adj_total (li_quantity item)
      in \<lparr>li_product_id = li_product_id item, li_quantity = li_quantity item,
           li_unit_price = adj_unit, li_total_price = adj_total\<rparr>
         # dicts_loop factor remaining' rest)"

definition distribute_discount_dicts ::
    "line_item list \<Rightarrow> rat option \<Rightarrow> line_item list \<times> rat" where
  "distribute_discount_dicts items discount =
     (let total_before = sum_list (map li_total_price items);
          final_total = max 0 (total_before - discount_or_0 discount);
          factor = discount_factor total_before final_total discount
      in (dicts_loop factor final_total items, final_total))"


section \<open>Installment amounts\<close>

text \<open>
  The amounts that \<^verbatim>\<open>record_sale\<close> splits a total into. The list is built only under
  the guard \<^verbatim>\<open>if n_inst > 1\<close>; when the guard fails no amount is computed.
  \<^verbatim>\<open>
  if n_inst > 1:
      base = round(total / n_inst, 2)
      amounts = [base] * n_inst
      diff = round(total - sum(amounts), 2)
      amounts[-1] = round(amounts[-1] + diff, 2)
  \<close>
\<close>

definition installment_amounts :: "rat \<Rightarrow> int \<Rightarrow> rat list" where
  "installment_amounts total_value n_inst =
     (if 1 < n_inst then
        (let base = round2 (total_value / of_int n_inst);
             amounts = replicate (nat n_inst) base;
             diff = round2 (total_value - sum_list amounts)
         in amounts[length amounts - 1 := round2 (last amounts + diff)])
      else [])"

text \<open>\<^verbatim>\<open>n_inst = int(num_installments) if num_installments else 1\<close>\<close>

definition n_inst_of :: "int \<Rightarrow> int" where
  "n_inst_of num_installments = (if num_installments \<noteq> 0 then num_installments else 1)"

section \<open>Date validation\<close>

text \<open>
  Strings are lists of 8-bit characters. \<^verbatim>\<open>str.strip()\<close> removes leading and trailing
  white space; among the characters below 256 these are the codes 9 to 13, 28 to 32, 133 and 160.
\<close>

definition py_isspace :: "char \<Rightarrow> bool" where
  "py_isspace c =
     (let n = (of_char c :: nat)
      in (9 \<le> n \<and> n \<le> 13) \<or> (28 \<le> n \<and> n \<le> 32) \<or> n = 133 \<or> n = 160)"

definition py_strip :: "string \<Rightarrow> string" where
  "py_strip s = rev (dropWhile py_isspace (rev (dropWhile py_isspace s)))"

definition is_digit :: "char \<Rightarrow> bool" where
  "is_digit c \<longleftrightarrow> 48 \<le> (of_char c :: nat) \<and> (of_char c :: nat) \<le> 57"

definition digit_val :: "char \<Rightarrow> nat" where
  "digit_val c = of_char c - 48"

definition is_leap :: "nat \<Rightarrow> bool" where
  "is_leap y \<longleftrightarrow> y mod 4 = 0 \<and> (y mod 100 \<noteq> 0 \<or> y mod 400 = 0)"

definition days_in_month :: "nat \<Rightarrow> nat \<Rightarrow> nat" where
  "days_in_month y m =
     (if m = 2 then (if is_leap y then 29 else 28)
      else if m = 4 \<or> m = 6 \<or> m = 9 \<or> m = 11 then 30
      else 31)"

text \<open>
  The library call \<^verbatim>\<open>datetime.strptime(s, "%Y-%m-%d")\<close>, as CPython's \<^verbatim>\<open>_strptime\<close>
  implements it: the string has to match
  \<^verbatim>\<open>(\d\d\d\d)-(1[0-2]|0[1-9]|[1-9])-(3[01]|[12]\d|0[1-9]|[1-9]| [1-9])\<close> with nothing left
  over, and the three numbers have to form a date of the calendar (year at least 1).
  \<open>parse_month\<close> reads the month and the dash after it, \<open>parse_day\<close> reads the day,
  which has to be the whole rest.
\<close>

definition parse_month :: "string \<Rightarrow> (nat \<times> string) option" where
  "parse_month s =
     (case s of
        a # b # c # rest \<Rightarrow>
          if a = CHR ''1'' \<and> (b = CHR ''0'' \<or> b = CHR ''1'' \<or> b = CHR ''2'') \<and> c = CHR ''-''
            then Some (10 + digit_val b, rest)
          else if a = CHR ''0'' \<and> is_digit b \<and> b \<noteq> CHR ''0'' \<and> c = CHR ''-''
            then Some (digit_val b, rest)
          else if is_digit a \<and> a \<noteq> CHR ''0'' \<and> b = CHR ''-''
            then Some (digit_val a, c # rest)
          else None
      | [a, b] \<Rightarrow>
          if is_digit a \<and> a \<noteq> CHR ''0'' \<and> b = CHR ''-'' then Some (digit_val a, []) else None
      | _ \<Rightarrow> None)"

definition parse_day :: "string \<Rightarrow> nat option" where
  "parse_day s =
     (case s of
        [a, b] \<Rightarrow>
          if a = CHR ''3'' \<and> (b = CHR ''0'' \<or> b = CHR ''1'') then Some (30 + digit_val b)
          else if (a = CHR ''1'' \<or> a = CHR ''2'') \<and> is_digit b
            then Some (10 * digit_val a + digit_val b)
          else if a = CHR ''0'' \<and> is_digit b \<and> b \<noteq> CHR ''0'' then Some (digit_val b)
          else if a = CHR '' '' \<and> is_digit b \<and> b \<noteq> CHR ''0'' then Some (digit_val b)
          else None
      | [a] \<Rightarrow> if is_digit a \<and> a \<noteq> CHR ''0'' then Some (digit_val a) else None
      | _ \<Rightarrow> None)"

definition strptime_ymd :: "string \<Rightarrow> (nat \<times> nat \<times> nat) option" where
  "strptime_ymd s =
     (case s of
        y1 # y2 # y3 # y4 # dash # rest \<Rightarrow>
          if is_digit y1 \<and> is_digit y2 \<and> is_digit y3 \<and> is_digit y4 \<and> dash = CHR ''-'' then
            (case parse_month rest of
               None \<Rightarrow> None
             | Some (m, rest') \<Rightarrow>
                 (case parse_day rest' of
                    None \<Rightarrow> None
                  | Some d \<Rightarrow>
                      (let y = 1000 * digit_val y1 + 100 * digit_val y2
                               + 10 * digit_val y3 + digit_val y4
                       in if 1 \<le> y \<and> d \<le> days_in_month y m then Some (y, m, d) else None)))
          else None
      | _ \<Rightarrow> None)"

text \<open>
  \<^verbatim>\<open>
  def validate_date_ymd(date_str):
      if not date_str:
          return False
      try:
          datetime.strptime(date_str, "%Y-%m-%d")
          return True
      except Exception:
          return False
  \<close>
\<close>

definition validate_date_ymd :: "string \<Rightarrow> bool" where
  "validate_date_ymd date_str =
     (if date_str = [] then False
      else (case strptime_ymd date_str of Some _ \<Rightarrow> True | None \<Rightarrow> False))"

text \<open>
  \<^verbatim>\<open>re.match(r"^\d{2}/\d{2}/\d{4}$", date_str)\<close>: two digits, a slash, two digits, a slash and four
  digits; \<^verbatim>\<open>$\<close> also matches just before one final newline.
\<close>

definition br_match :: "string \<Rightarrow> bool" where
  "br_match s \<longleftrightarrow>
     (length s = 10 \<or> (length s = 11 \<and> s ! 10 = CHR 0x0A)) \<and>
     is_digit (s ! 0) \<and> is_digit (s ! 1) \<and> s ! 2 = CHR ''/'' \<and>
     is_digit (s ! 3) \<and> is_digit (s ! 4) \<and> s ! 5 = CHR ''/'' \<and>
     is_digit (s ! 6) \<and> is_digit (s ! 7) \<and> is_digit (s ! 8) \<and> is_digit (s ! 9)"

text \<open>
  The local function \<^verbatim>\<open>convert_br_to_iso\<close>. On a match the string has exactly two
  slashes, so \<^verbatim>\<open>d, m, y = date_str.split("/")\<close> yields its first two characters, the two
  after the first slash and everything after the second slash, and does not raise.
\<close>

definition convert_br_to_iso :: "string \<Rightarrow> string" where
  "convert_br_to_iso date_str =
     (if br_match date_str
      then (let d = take 2 date_str; m = take 2 (drop 3 date_str); y = drop 6 date_str
            in y @ ''-'' @ m @ ''-'' @ d)
      else date_str)"

text \<open>The loop \<^verbatim>\<open>for d in dates\<close> of \<^verbatim>\<open>validate_installment_dates\<close>.\<close>

fun dates_loop :: "string list \<Rightarrow> bool" where
  "dates_loop [] = True"
| "dates_loop (d # ds) =
     (if d = [] then False
      else if \<not> validate_date_ymd (convert_br_to_iso d) then False
      else dates_loop ds)"

text \<open>
  \<^verbatim>\<open>
  def validate_installment_dates(dates):
      if not isinstance(dates, (list, tuple)):
          return False
      if len(dates) > 12:
          return False
      if len(dates) == 1 and (not dates[0] or str(dates[0]).strip() == ""):
          return True
      ...
      for d in dates:
          if not d:
              return False
          d_iso = convert_br_to_iso(d)
          if not validate_date_ymd(d_iso):
              return False
      return True
  \<close>
  The argument is a list by its type.
\<close>

definition validate_installment_dates :: "string list \<Rightarrow> bool" where
  "validate_installment_dates dates =
     (if 12 < length dates then False
      else if length dates = 1 \<and> (hd dates = [] \<or> py_strip (hd dates) = []) then True
      else dates_loop dates)"

section \<open>The store\<close>

text \<open>
  The tables of the embedded database, each a list of rows in insertion order. The columns
  are those the statements of the program read and write, on the fully migrated schema.
  \<^verbatim>\<open>paid_date\<close> and \<^verbatim>\<open>payment_method\<close> of an installment are \<open>None\<close> while they are
  \<^verbatim>\<open>NULL\<close>. The free-text \<^verbatim>\<open>details\<close> column of the activity log is left out.
\<close>

record product =
  p_id :: int
  p_name :: string
  p_price :: rat
  p_category :: "string option"

record user =
  u_id :: int
  u_name :: string
  u_username :: string
  u_role :: string
  u_debt_balance :: rat

record sale =
  s_id :: int
  s_date :: string
  s_employee_id :: int
  s_product_id :: int
  s_quantity :: int
  s_total_value :: rat
  s_sale_type :: string
  s_payment_method :: string
  s_num_installments :: int
  s_first_payment_date :: string
  s_installment_dates :: "string list"

record sale_payment =
  sp_id :: int
  sp_sale_id :: int
  sp_installment_index :: int
  sp_due_date :: string
  sp_amount :: rat
  sp_paid :: bool
  sp_paid_date :: "string option"
  sp_payment_method :: "string option"

record activity =
  a_date :: string
  a_user_id :: int
  a_action :: string

record db =
  products :: "product list"
  users :: "user list"
  sales :: "sale list"
  sale_payments :: "sale_payment list"
  activity_log :: "activity list"

text \<open>
  The failures that the operations report as \<^verbatim>\<open>(False, message)\<close>: the two validation
  messages of \<^verbatim>\<open>record_sale\<close> (product not found, invalid quantity), the message for
  unsupported arguments of \<^verbatim>\<open>update_payment_status_db\<close>, and \<^verbatim>\<open>str(e)\<close> for an
  exception \<^verbatim>\<open>e\<close> raised by the store.
\<close>

datatype error = ProductNotFound | InvalidQuantity | UnsupportedArguments | StoreError

text \<open>
  The row id the store gives to an inserted row (\<^verbatim>\<open>cur.lastrowid\<close>): one more than the
  largest id in the table, and 1 in an empty table.
\<close>

definition next_rowid :: "int list \<Rightarrow> int" where
  "next_rowid ids = fold max ids 0 + 1"

text \<open>\<^verbatim>\<open>UPDATE table SET ... WHERE ...\<close>: every row that satisfies the condition is rewritten.\<close>

definition sql_update :: "('r \<Rightarrow> bool) \<Rightarrow> ('r \<Rightarrow> 'r) \<Rightarrow> 'r list \<Rightarrow> 'r list" where
  "sql_update cond assign rows = map (\<lambda>r. if cond r then assign r else r) rows"

text \<open>
  \<^verbatim>\<open>log_activity(user_id, action, details)\<close> inserts one row into \<^verbatim>\<open>activity_log\<close>,
  dated with the current time.
\<close>

definition log_activity :: "string \<Rightarrow> db \<Rightarrow> int \<Rightarrow> string \<Rightarrow> db" where
  "log_activity now d user_id action =
     d\<lparr>activity_log := activity_log d @ [\<lparr>a_date = now, a_user_id = user_id, a_action = action\<rparr>]\<rparr>"

text \<open>\<^verbatim>\<open>SELECT ... FROM products WHERE id = ?\<close> followed by \<^verbatim>\<open>fetchone()\<close>.\<close>

definition get_product_by_id :: "db \<Rightarrow> int \<Rightarrow> product option" where
  "get_product_by_id d pid = find (\<lambda>p. p_id p = pid) (products d)"

section \<open>Recording a sale\<close>

text \<open>The arguments of \<^verbatim>\<open>record_sale\<close>; an optional argument is \<open>None\<close> when it is \<^verbatim>\<open>None\<close>.\<close>

record sale_args =
  employee_id :: int
  product_id :: int
  quantity :: int
  sale_type :: string
  custom_price :: "rat option"
  payment_method :: "string option"
  date_str :: "string option"
  num_installments :: int
  first_payment_date :: "string option"
  installment_dates :: "string list option"

text \<open>\<^verbatim>\<open>x or ''\<close> and \<^verbatim>\<open>x or []\<close> for an optional argument.\<close>

definition or_empty :: "'a list option \<Rightarrow> 'a list" where
  "or_empty x = (case x of None \<Rightarrow> [] | Some v \<Rightarrow> v)"

text \<open>
  The date stored with the sale:
  \<^verbatim>\<open>date_str.strip() if date_str and isinstance(date_str, str) and date_str.strip() else datetime.now()...\<close>
\<close>

definition sale_date :: "string \<Rightarrow> string option \<Rightarrow> string" where
  "sale_date now ds =
     (case ds of
        None \<Rightarrow> now
      | Some s \<Rightarrow> if s \<noteq> [] \<and> py_strip s \<noteq> [] then py_strip s else now)"

text \<open>
  The loop \<^verbatim>\<open>for idx in range(n_inst)\<close> over the indices that are left. The store decides
  whether an insert succeeds: \<open>pay_ok idx\<close> tells whether the insert of the loop's round
  \<open>idx\<close> does. A failed insert raises, the loop catches the exception and goes on
  (\<^verbatim>\<open>except Exception: pass\<close>), so the row is missing.
\<close>

fun insert_installments ::
    "(nat \<Rightarrow> bool) \<Rightarrow> int \<Rightarrow> string list \<Rightarrow> rat list \<Rightarrow> nat list
      \<Rightarrow> sale_payment list \<Rightarrow> sale_payment list" where
  "insert_installments pay_ok sale_id inst_dates amounts [] rows = rows"
| "insert_installments pay_ok sale_id inst_dates amounts (idx # idxs) rows =
     (let due = (if idx < length inst_dates then inst_dates ! idx else []);
          amt = amounts ! idx;
          row = \<lparr>sp_id = next_rowid (map sp_id rows), sp_sale_id = sale_id,
                 sp_installment_index = int idx + 1, sp_due_date = due, sp_amount = amt,
                 sp_paid = False, sp_paid_date = None, sp_payment_method = None\<rparr>
      in insert_installments pay_ok sale_id inst_dates amounts idxs
           (if pay_ok idx then rows @ [row] else rows))"

text \<open>
  \<^verbatim>\<open>record_sale\<close>. \<open>now\<close> is the current time, \<open>sale_ok\<close> tells whether the insert into
  \<^verbatim>\<open>sales\<close> succeeds and \<open>pay_ok\<close> which installment inserts do. The two validations
  return before the \<^verbatim>\<open>try\<close> block. When the insert of the sale raises, nothing is
  committed, the outer \<^verbatim>\<open>except\<close> logs \<^verbatim>\<open>ERRO_REGISTRAR_VENDA\<close> and the call returns
  \<^verbatim>\<open>(False, str(e))\<close>. Otherwise the sale row and the installment rows that were inserted
  are committed, \<^verbatim>\<open>REGISTRAR_VENDA\<close> is logged and the call returns \<^verbatim>\<open>(True, None)\<close>.
  The result \<^verbatim>\<open>(False, msg)\<close> is \<open>Inl\<close> of the error. The line that the \<^verbatim>\<open>finally\<close>
  block appends to the file \<^verbatim>\<open>debug_sales.log\<close> is no part of the store and is left out.
\<close>

definition record_sale ::
    "string \<Rightarrow> bool \<Rightarrow> (nat \<Rightarrow> bool) \<Rightarrow> db \<Rightarrow> sale_args \<Rightarrow> db \<times> (error + unit)" where
  "record_sale now sale_ok pay_ok d args =
     (case get_product_by_id d (product_id args) of
        None \<Rightarrow> (d, Inl ProductNotFound)
      | Some prd \<Rightarrow>
          if quantity args \<le> 0 then (d, Inl InvalidQuantity)
          else
            (let unit_price = (case custom_price args of Some p \<Rightarrow> p | None \<Rightarrow> p_price prd);
                 total_value = unit_price * of_int (quantity args);
                 date = sale_date now (date_str args)
             in if \<not> sale_ok
                then (log_activity now d (employee_id args) ''ERRO_REGISTRAR_VENDA'',
                      Inl StoreError)
                else
                  (let sale_id = next_rowid (map s_id (sales d));
                       n_inst = n_inst_of (num_installments args);
                       row = \<lparr>s_id = sale_id, s_date = date,
                              s_employee_id = employee_id args,
                              s_product_id = product_id args, s_quantity = quantity args,
                              s_total_value = total_value, s_sale_type = sale_type args,
                              s_payment_method = or_empty (payment_method args),
                              s_num_installments = n_inst,
                              s_first_payment_date = or_empty (first_payment_date args),
                              s_installment_dates = or_empty (installment_dates args)\<rparr>;
                       payments =
                         (if 1 < n_inst
                          then insert_installments pay_ok sale_id
                                 (or_empty (installment_dates args))
                                 (installment_amounts total_value n_inst)
                                 [0..<nat n_inst] (sale_payments d)
                          else sale_payments d);
                       d' = d\<lparr>sales := sales d @ [row], sale_payments := payments\<rparr>
                   in (log_activity now d' (employee_id args) ''REGISTRAR_VENDA'', Inr ()))))"

text \<open>The installment rows of one sale, in table order.\<close>

definition payments_of :: "db \<Rightarrow> int \<Rightarrow> sale_payment list" where
  "payments_of d sale_id = filter (\<lambda>p. sp_sale_id p = sale_id) (sale_payments d)"

section \<open>Payment status\<close>

text \<open>
  The second argument of \<^verbatim>\<open>update_payment_status_db\<close> by its run-time type: a
  \<^verbatim>\<open>bool\<close>, an \<^verbatim>\<open>int\<close>, a \<^verbatim>\<open>str\<close>, or anything else.
\<close>

datatype status_arg = Flag bool | Num int | Text string | Other

text \<open>
  Case A, one installment row by its id:
  \<^verbatim>\<open>
  if paid_flag:
      UPDATE sale_payments SET paid = 1, paid_date = now, payment_method = (payment_method or '') WHERE id = ?
  else:
      UPDATE sale_payments SET paid = 0, paid_date = '', payment_method = '' WHERE id = ?
  \<close>
\<close>

definition mark_paid :: "string \<Rightarrow> string option \<Rightarrow> sale_payment \<Rightarrow> sale_payment" where
  "mark_paid now method p =
     p\<lparr>sp_paid := True, sp_paid_date := Some now, sp_payment_method := Some (or_empty method)\<rparr>"

definition mark_open :: "sale_payment \<Rightarrow> sale_payment" where
  "mark_open p = p\<lparr>sp_paid := False, sp_paid_date := Some [], sp_payment_method := Some []\<rparr>"

definition update_single :: "string \<Rightarrow> db \<Rightarrow> int \<Rightarrow> bool \<Rightarrow> string option \<Rightarrow> db" where
  "update_single now d payment_id paid_flag method =
     (if paid_flag
      then d\<lparr>sale_payments :=
               sql_update (\<lambda>p. sp_id p = payment_id) (mark_paid now method) (sale_payments d)\<rparr>
      else d\<lparr>sale_payments :=
               sql_update (\<lambda>p. sp_id p = payment_id) mark_open (sale_payments d)\<rparr>)"

text \<open>
  Case B, all installments of a sale by a textual status. For \<^verbatim>\<open>'Pago'\<close> the statement is
  \<^verbatim>\<open>UPDATE sale_payments SET paid = 1, paid_date = now, payment_method = ... WHERE sale_id = ? AND paid = 0\<close>;
  the statements on \<^verbatim>\<open>sales\<close> that follow assign every column to itself. For
  \<^verbatim>\<open>'Em Aberto'\<close> it is
  \<^verbatim>\<open>UPDATE sale_payments SET paid = 0, paid_date = '', payment_method = '' WHERE sale_id = ?\<close>.
  The statements that set \<^verbatim>\<open>sales.payment_status\<close> sit in their own \<^verbatim>\<open>try\<close> blocks and
  fail silently, the \<^verbatim>\<open>sales\<close> table having no such column; any other status changes
  nothing.
\<close>

definition update_bulk :: "string \<Rightarrow> db \<Rightarrow> int \<Rightarrow> string \<Rightarrow> string option \<Rightarrow> db" where
  "update_bulk now d sale_id status method =
     (if status = ''Pago''
      then d\<lparr>sale_payments :=
               sql_update (\<lambda>p. sp_sale_id p = sale_id \<and> \<not> sp_paid p) (mark_paid now method)
                 (sale_payments d)\<rparr>
      else if status = ''Em Aberto''
      then d\<lparr>sale_payments :=
               sql_update (\<lambda>p. sp_sale_id p = sale_id) mark_open (sale_payments d)\<rparr>
      else d)"

text \<open>
  \<^verbatim>\<open>update_payment_status_db(arg1, arg2, payment_method=None)\<close> dispatches on the type of
  \<^verbatim>\<open>arg2\<close>: a flag (or the strings \<^verbatim>\<open>'0'\<close> and \<^verbatim>\<open>'1'\<close>) selects case A with
  \<^verbatim>\<open>paid_flag = bool(int(arg2))\<close>, any other string selects case B. \<open>store_ok\<close> tells
  whether the statements of the store succeed; when one raises, nothing is committed and
  the call returns \<^verbatim>\<open>(False, str(e))\<close>.
\<close>

definition update_payment_status_db ::
    "string \<Rightarrow> bool \<Rightarrow> db \<Rightarrow> int \<Rightarrow> status_arg \<Rightarrow> string option \<Rightarrow> db \<times> (error + unit)" where
  "update_payment_status_db now store_ok d arg1 arg2 method =
     (case arg2 of
        Other \<Rightarrow> (d, Inl UnsupportedArguments)
      | _ \<Rightarrow>
        if \<not> store_ok then (d, Inl StoreError)
        else
          (case arg2 of
             Flag b \<Rightarrow> (update_single now d arg1 b method, Inr ())
           | Num n \<Rightarrow> (update_single now d arg1 (n \<noteq> 0) method, Inr ())
           | Text s \<Rightarrow>
               if s = ''0'' \<or> s = ''1''
               then (update_single now d arg1 (s = ''1'') method, Inr ())
               else (update_bulk now d arg1 s method, Inr ())
           | Other \<Rightarrow> (d, Inl UnsupportedArguments)))"

section \<open>Deleting a sale\<close>

text \<open>
  \<^verbatim>\<open>
  def delete_sale(sale_id):
      try:
          ... cur.execute("DELETE FROM sales WHERE id = ?", (sale_id,)) ... commit
          log_activity(1, "EXCLUIR_VENDA", ...)
          return True
      except Exception as e:
          log_activity(1, "ERRO_EXCLUIR_VENDA", ...)
          return False
  \<close>
  \<open>store_ok\<close> tells whether the statement succeeds.
\<close>

definition delete_sale :: "string \<Rightarrow> bool \<Rightarrow> db \<Rightarrow> int \<Rightarrow> db \<times> bool" where
  "delete_sale now store_ok d sale_id =
     (if store_ok
      then (log_activity now (d\<lparr>sales := filter (\<lambda>s. s_id s \<noteq> sale_id) (sales d)\<rparr>) 1
              ''EXCLUIR_VENDA'', True)
      else (log_activity now d 1 ''ERRO_EXCLUIR_VENDA'', False))"

section \<open>A small store for the concrete runs\<close>

text \<open>
  A store with two products and no sale yet, a store that holds two sales with their
  installments, a request for \<^verbatim>\<open>record_sale\<close>, and three behaviours of the store on the
  installment inserts: every insert succeeds, the first one fails, the last of three fails.
\<close>

definition shop_db :: db where
  "shop_db =
     \<lparr>products =
        [\<lparr>p_id = 1, p_name = ''Caderno'', p_price = 25, p_category = Some ''Papelaria''\<rparr>,
         \<lparr>p_id = 2, p_name = ''Caneta'', p_price = 5 / 2, p_category = None\<rparr>],
      users =
        [\<lparr>u_id = 1, u_name = ''Administrador'', u_username = ''admin'', u_role = ''admin'',
          u_debt_balance = 0\<rparr>],
      sales = [], sale_payments = [], activity_log = []\<rparr>"

definition sale_request :: "int \<Rightarrow> int \<Rightarrow> int \<Rightarrow> sale_args" where
  "sale_request pid qty n =
     \<lparr>employee_id = 1, product_id = pid, quantity = qty, sale_type = ''cliente'',
      custom_price = None, payment_method = Some ''pix'',
      date_str = Some ''2024-01-10 12:00:00'', num_installments = n,
      first_payment_date = None, installment_dates = None\<rparr>"

definition every_insert_ok :: "nat \<Rightarrow> bool" where
  "every_insert_ok idx = True"

definition first_insert_fails :: "nat \<Rightarrow> bool" where
  "first_insert_fails idx \<longleftrightarrow> idx \<noteq> 0"

definition installment_row ::
    "int \<Rightarrow> int \<Rightarrow> int \<Rightarrow> rat \<Rightarrow> bool \<Rightarrow> string option \<Rightarrow> string option \<Rightarrow> sale_payment" where
  "installment_row pid sid idx amt paid pdate method =
     \<lparr>sp_id = pid, sp_sale_id = sid, sp_installment_index = idx, sp_due_date = [],
      sp_amount = amt, sp_paid = paid, sp_paid_date = pdate, sp_payment_method = method\<rparr>"

definition sale_row :: "int \<Rightarrow> rat \<Rightarrow> int \<Rightarrow> sale" where
  "sale_row sid amt n =
     \<lparr>s_id = sid, s_date = ''2024-01-10 12:00:00'', s_employee_id = 1, s_product_id = 1,
      s_quantity = 4, s_total_value = amt, s_sale_type = ''cliente'', s_payment_method = ''pix'',
      s_num_installments = n, s_first_payment_date = [], s_installment_dates = []\<rparr>"

definition ledger_db :: db where
  "ledger_db =
     shop_db\<lparr>sales := [sale_row 1 100 2, sale_row 2 100 2],
       sale_payments :=
         [installment_row 1 1 1 50 True (Some ''2024-02-01 09:00:00'') (Some ''pix''),
          installment_row 2 1 2 50 False None None,
          installment_row 3 2 1 50 False None None,
          installment_row 4 2 2 50 True (Some ''2024-02-03 15:00:00'') (Some ''dinheiro'')]\<rparr>"

section \<open>Rounding lemmas\<close>











section \<open>The discount allocator\<close>

lemma tuples_loop_length: "length (tuples_loop f r items) = length items"
  by (induction f r items rule: tuples_loop.induct) (simp_all add: Let_def)







section \<open>Equivalence of the two allocators\<close>

lemma allocator_bodies_agree:
  "map (\<lambda>(item, adj_unit, adj_total). (li_product_id item, li_quantity item, adj_unit, adj_total))
       (tuples_loop f r items)
   = map (\<lambda>x. (li_product_id x, li_quantity x, li_unit_price x, li_total_price x))
       (dicts_loop f r items)"
  by (induction f r items rule: tuples_loop.induct) (simp_all add: Let_def)

text \<open>
  Claim C10. The two allocators agree: for every item list and every discount,
  \<open>distribute_discount_dicts\<close> and \<open>distribute_discount_tuples\<close> return the same final total
  and, position by position, entries for the same product and quantity with the same
  adjusted unit price and the same adjusted total price.
\<close>

theorem allocators_agree:
  "snd (distribute_discount_dicts items discount) = snd (distribute_discount_tuples items discount)
   \<and> map (\<lambda>(item, adj_unit, adj_total).
            (li_product_id item, li_quantity item, adj_unit, adj_total))
         (fst (distribute_discount_tuples items discount))
     = map (\<lambda>x. (li_product_id x, li_quantity x, li_unit_price x, li_total_price x))
         (fst (distribute_discount_dicts items discount))"
  by (simp add: distribute_discount_dicts_def distribute_discount_tuples_def Let_def allocator_bodies_agree)

section \<open>Installment amounts\<close>







section \<open>Recording a sale\<close>

lemma map_index_upto: "map (\<lambda>idx. int idx + 1) [0..<k] = [1..int k]"
proof (induction k)
  case 0
  show ?case by simp
next
  case (Suc k)
  have "[1..int k + 1] = [1..int k + 1 - 1] @ [int k + 1]"
    by (rule upto_rec2) simp
  then have "[1..int (Suc k)] = [1..int k] @ [int k + 1]"
    by (simp add: add.commute)
  with Suc show ?case
    by simp
qed

lemma insert_installments_rows:
  "\<exists>new. insert_installments pay_ok sid dates amts idxs rows = rows @ new
     \<and> map sp_installment_index new = map (\<lambda>idx. int idx + 1) (filter pay_ok idxs)
     \<and> (\<forall>p \<in> set new. sp_sale_id p = sid)"
proof (induction idxs arbitrary: rows)
  case Nil
  show ?case by simp
next
  case (Cons idx idxs)
  show ?case
  proof (cases "pay_ok idx")
    case True
    define row where "row = \<lparr>sp_id = next_rowid (map sp_id rows), sp_sale_id = sid,
        sp_installment_index = int idx + 1,
        sp_due_date = (if idx < length dates then dates ! idx else []),
        sp_amount = amts ! idx, sp_paid = False, sp_paid_date = None,
        sp_payment_method = None\<rparr>"
    from Cons.IH [of "rows @ [row]"] obtain new where
      new: "insert_installments pay_ok sid dates amts idxs (rows @ [row]) = (rows @ [row]) @ new"
        "map sp_installment_index new = map (\<lambda>idx. int idx + 1) (filter pay_ok idxs)"
        "\<forall>p \<in> set new. sp_sale_id p = sid"
      by blast
    have "insert_installments pay_ok sid dates amts (idx # idxs) rows = rows @ (row # new)"
      using True new(1) by (simp add: Let_def row_def)
    moreover have "map sp_installment_index (row # new)
        = map (\<lambda>idx. int idx + 1) (filter pay_ok (idx # idxs))"
      using True new(2) by (simp add: row_def)
    moreover have "\<forall>p \<in> set (row # new). sp_sale_id p = sid"
      using new(3) by (simp add: row_def)
    ultimately show ?thesis
      by blast
  next
    case False
    from Cons.IH [of rows] obtain new where
      new: "insert_installments pay_ok sid dates amts idxs rows = rows @ new"
        "map sp_installment_index new = map (\<lambda>idx. int idx + 1) (filter pay_ok idxs)"
        "\<forall>p \<in> set new. sp_sale_id p = sid"
      by blast
    have "insert_installments pay_ok sid dates amts (idx # idxs) rows = rows @ new"
      using False new(1) by (simp add: Let_def)
    moreover have "map sp_installment_index new
        = map (\<lambda>idx. int idx + 1) (filter pay_ok (idx # idxs))"
      using False new(2) by simp
    ultimately show ?thesis
      using new(3) by blast
  qed
qed

text \<open>What a successful call leaves in the store.\<close>

lemma record_sale_success:
  assumes "snd (record_sale now sale_ok pay_ok d args) = Inr ()"
  shows "sale_ok"
    and "get_product_by_id d (product_id args) \<noteq> None"
    and "0 < quantity args"
    and "map s_id (sales (fst (record_sale now sale_ok pay_ok d args)))
           = map s_id (sales d) @ [next_rowid (map s_id (sales d))]"
    and "s_num_installments (last (sales (fst (record_sale now sale_ok pay_ok d args))))
           = n_inst_of (num_installments args)"
    and "sale_payments (fst (record_sale now sale_ok pay_ok d args)) =
           (if 1 < n_inst_of (num_installments args)
            then insert_installments pay_ok (next_rowid (map s_id (sales d)))
                   (or_empty (installment_dates args))
                   (installment_amounts
                      ((case custom_price args of Some p \<Rightarrow> p
                        | None \<Rightarrow> p_price (the (get_product_by_id d (product_id args))))
                       * of_int (quantity args))
                      (n_inst_of (num_installments args)))
                   [0..<nat (n_inst_of (num_installments args))] (sale_payments d)
            else sale_payments d)"
  using assms
  by (auto simp: record_sale_def Let_def log_activity_def split: option.splits if_splits)


text \<open>
  Claim C3, as amended. After a successful \<open>record_sale\<close> with a requested count \<open>n > 1\<close>
  the store holds one more sale, with the next row id and \<open>num_installments = n\<close>, and
  the installment rows that the call has added all carry that id. Their
  \<open>installment_index\<close> values are, in order, \<open>idx + 1\<close> for exactly those rounds \<open>idx\<close> of
  the loop whose insert succeeded. When every insert succeeds they are exactly
  \<open>1, ..., n\<close>, without gap or duplicate, and they are all the rows of that sale unless an
  orphaned row already carried the id. A failed insert is skipped, so the sale is left with
  fewer rows than \<open>n\<close> and the call still succeeds.
\<close>

theorem record_sale_installment_indices:
  assumes "snd (record_sale now sale_ok pay_ok d args) = Inr ()"
    and "1 < num_installments args"
  shows "let d' = fst (record_sale now sale_ok pay_ok d args);
             sid = next_rowid (map s_id (sales d));
             n = num_installments args
         in map s_id (sales d') = map s_id (sales d) @ [sid]
            \<and> s_num_installments (last (sales d')) = n
            \<and> (\<exists>new. sale_payments d' = sale_payments d @ new
                 \<and> (\<forall>p \<in> set new. sp_sale_id p = sid)
                 \<and> map sp_installment_index new
                     = map (\<lambda>idx. int idx + 1) (filter pay_ok [0..<nat n])
                 \<and> ((\<forall>idx < nat n. pay_ok idx) \<longrightarrow>
                      map sp_installment_index new = [1..n]
                      \<and> (payments_of d sid = [] \<longrightarrow>
                           map sp_installment_index (payments_of d' sid) = [1..n])))"
proof -
  define d' where "d' = fst (record_sale now sale_ok pay_ok d args)"
  define sid where "sid = next_rowid (map s_id (sales d))"
  define n where "n = num_installments args"
  have n: "n_inst_of (num_installments args) = n" "1 < n"
    using assms(2) by (simp_all add: n_inst_of_def n_def)
  have ids: "map s_id (sales d') = map s_id (sales d) @ [sid]"
    unfolding d'_def sid_def using assms(1) by (rule record_sale_success(4))
  have cnt: "s_num_installments (last (sales d')) = n"
    unfolding d'_def using record_sale_success(5) [OF assms(1)] n(1) by simp
  from record_sale_success(6) [OF assms(1)] n
  obtain dates amts where
    pays: "sale_payments d' = insert_installments pay_ok sid dates amts [0..<nat n] (sale_payments d)"
    by (simp add: d'_def sid_def)
  from insert_installments_rows [of pay_ok sid dates amts "[0..<nat n]" "sale_payments d"]
  obtain new where
    new: "sale_payments d' = sale_payments d @ new"
      "map sp_installment_index new = map (\<lambda>idx. int idx + 1) (filter pay_ok [0..<nat n])"
      "\<forall>p \<in> set new. sp_sale_id p = sid"
    unfolding pays [symmetric] by blast
  have all_ok: "map sp_installment_index new = [1..n]" if "\<forall>idx < nat n. pay_ok idx"
  proof -
    from that have "filter pay_ok [0..<nat n] = [0..<nat n]"
      by (simp add: filter_id_conv)
    then show ?thesis
      using new(2) map_index_upto [of "nat n"] n(2) by simp
  qed
  have fresh: "map sp_installment_index (payments_of d' sid) = [1..n]"
    if "\<forall>idx < nat n. pay_ok idx" and "payments_of d sid = []"
  proof -
    have "filter (\<lambda>p. sp_sale_id p = sid) new = new"
      using new(3) by (simp add: filter_id_conv)
    then have "payments_of d' sid = new"
      using that(2) by (simp add: payments_of_def new(1))
    then show ?thesis
      using all_ok [OF that(1)] by simp
  qed
  show ?thesis
    unfolding Let_def d'_def [symmetric] sid_def [symmetric] n_def [symmetric]
    using ids cnt new all_ok fresh by blast
qed

text \<open>
  A sale in 3 installments on the store without sales, every insert succeeding: the sale
  gets the id 1 and its installments carry the index values 1, 2, 3.
\<close>

theorem record_sale_installment_indices_witness:
  "snd (record_sale ''2024-01-10 12:00:00'' True every_insert_ok shop_db (sale_request 1 4 3))
     = Inr ()
   \<and> 1 < num_installments (sale_request 1 4 3)
   \<and> every_insert_ok 0 \<and> every_insert_ok 1 \<and> every_insert_ok 2
   \<and> next_rowid (map s_id (sales shop_db)) = 1
   \<and> payments_of shop_db 1 = []
   \<and> map sp_installment_index
        (payments_of
          (fst (record_sale ''2024-01-10 12:00:00'' True every_insert_ok shop_db
             (sale_request 1 4 3))) 1) = [1, 2, 3]"
proof -
  have a: "snd (record_sale ''2024-01-10 12:00:00'' True every_insert_ok shop_db
      (sale_request 1 4 3)) = Inr ()"
    by code_simp
  have b: "1 < num_installments (sale_request 1 4 3)"
    by (simp add: sale_request_def)
  have c: "\<forall>idx < nat (num_installments (sale_request 1 4 3)). every_insert_ok idx"
    by (simp add: every_insert_ok_def)
  have e: "next_rowid (map s_id (sales shop_db)) = 1"
    by (simp add: next_rowid_def shop_db_def)
  have f: "payments_of shop_db 1 = []"
    by (simp add: payments_of_def shop_db_def)
  have g: "[1..num_installments (sale_request 1 4 3)] = [1, 2, 3]"
    by code_simp
  from record_sale_installment_indices [OF a b] c e f g
  have "map sp_installment_index
        (payments_of
          (fst (record_sale ''2024-01-10 12:00:00'' True every_insert_ok shop_db
             (sale_request 1 4 3))) 1) = [1, 2, 3]"
    unfolding Let_def by auto
  with a b e f show ?thesis
    by (simp add: every_insert_ok_def)
qed

text \<open>
  Claim C3 as stated fails when an installment insert fails: with the first of three inserts
  failing the call succeeds, the sale is stored with \<open>num_installments = 3\<close>, and its
  installment rows carry the index values 2 and 3 only.
\<close>

theorem record_sale_failed_insert_counterexample:
  "snd (record_sale ''2024-01-10 12:00:00'' True first_insert_fails shop_db (sale_request 1 4 3))
     = Inr ()
   \<and> map s_id
       (sales (fst (record_sale ''2024-01-10 12:00:00'' True first_insert_fails shop_db
          (sale_request 1 4 3)))) = [1]
   \<and> map s_num_installments
       (sales (fst (record_sale ''2024-01-10 12:00:00'' True first_insert_fails shop_db
          (sale_request 1 4 3)))) = [3]
   \<and> map sp_installment_index
       (payments_of
         (fst (record_sale ''2024-01-10 12:00:00'' True first_insert_fails shop_db
            (sale_request 1 4 3))) 1) = [2, 3]"
  by code_simp

lemma validate_installment_dates_too_long:
  "12 < length dates \<Longrightarrow> \<not> validate_installment_dates dates"
  by (simp add: validate_installment_dates_def)

lemma record_sale_accepted:
  assumes "get_product_by_id d (product_id args) \<noteq> None" and "0 < quantity args"
  shows "snd (record_sale now True pay_ok d args) = Inr ()"
  using assms by (auto simp: record_sale_def Let_def split: option.splits)

lemma record_sale_sales_length:
  assumes "snd (record_sale now sale_ok pay_ok d args) = Inr ()"
  shows "length (sales (fst (record_sale now sale_ok pay_ok d args))) = length (sales d) + 1"
proof -
  have "length (map s_id (sales (fst (record_sale now sale_ok pay_ok d args))))
      = length (map s_id (sales d) @ [next_rowid (map s_id (sales d))])"
    using record_sale_success(4) [OF assms] by simp
  then show ?thesis
    by simp
qed

lemma insert_installments_length:
  "length (insert_installments pay_ok sid dates amts idxs rows)
     = length rows + length (filter pay_ok idxs)"
proof -
  from insert_installments_rows [of pay_ok sid dates amts idxs rows]
  obtain new where
    new: "insert_installments pay_ok sid dates amts idxs rows = rows @ new"
      "map sp_installment_index new = map (\<lambda>idx. int idx + 1) (filter pay_ok idxs)"
    by blast
  from new(2) have "length new = length (filter pay_ok idxs)"
    by (metis length_map)
  with new(1) show ?thesis
    by simp
qed

text \<open>
  Claim C4, as amended. \<open>record_sale\<close> applies no range check to the installment count.
  Whenever the product exists, the quantity is positive and the store accepts the insert of
  the sale, the call succeeds for every count: one sale row is added, a count of 0 is stored
  as 1 and any other count as given, and for a stored count above 1 one installment row is
  added per successful insert, also above 12. The only bound on installments is in
  \<open>validate_installment_dates\<close>, which rejects a list of more than 12 due dates.
\<close>

theorem record_sale_accepts_any_count:
  assumes "get_product_by_id d (product_id args) \<noteq> None" and "0 < quantity args"
  shows "(let r = record_sale now True pay_ok d args;
              n = n_inst_of (num_installments args)
          in snd r = Inr ()
             \<and> length (sales (fst r)) = length (sales d) + 1
             \<and> s_num_installments (last (sales (fst r))) = n
             \<and> n = (if num_installments args = 0 then 1 else num_installments args)
             \<and> length (sale_payments (fst r))
                 = length (sale_payments d)
                   + (if 1 < n then length (filter pay_ok [0..<nat n]) else 0))
         \<and> (12 < length dates \<longrightarrow> \<not> validate_installment_dates dates)"
proof -
  have ok: "snd (record_sale now True pay_ok d args) = Inr ()"
    using assms by (rule record_sale_accepted)
  have "length (sale_payments (fst (record_sale now True pay_ok d args)))
      = length (sale_payments d)
        + (if 1 < n_inst_of (num_installments args)
           then length (filter pay_ok [0..<nat (n_inst_of (num_installments args))]) else 0)"
    unfolding record_sale_success(6) [OF ok] by (simp add: insert_installments_length)
  then show ?thesis
    unfolding Let_def
    using ok record_sale_sales_length [OF ok] record_sale_success(5) [OF ok]
      validate_installment_dates_too_long [of dates]
    by (simp add: n_inst_of_def)
qed

text \<open>
  A count of 13 on the store without sales: the call succeeds and adds 13 installment rows;
  a list of 13 due dates is rejected by \<open>validate_installment_dates\<close>.
\<close>

theorem record_sale_accepts_any_count_witness:
  "get_product_by_id shop_db (product_id (sale_request 1 4 13)) \<noteq> None
   \<and> 0 < quantity (sale_request 1 4 13)
   \<and> snd (record_sale ''2024-01-10 12:00:00'' True every_insert_ok shop_db (sale_request 1 4 13))
       = Inr ()
   \<and> length (filter every_insert_ok [0..<13]) = 13
   \<and> length (sale_payments (fst (record_sale ''2024-01-10 12:00:00'' True every_insert_ok shop_db
        (sale_request 1 4 13)))) = 13
   \<and> 12 < length (replicate 13 ''2024-01-15'')
   \<and> \<not> validate_installment_dates (replicate 13 ''2024-01-15'')"
proof -
  have a: "get_product_by_id shop_db (product_id (sale_request 1 4 13)) \<noteq> None"
    by code_simp
  have b: "0 < quantity (sale_request 1 4 13)"
    by (simp add: sale_request_def)
  have c: "n_inst_of (num_installments (sale_request 1 4 13)) = 13"
    by (simp add: sale_request_def n_inst_of_def)
  have e: "length (filter every_insert_ok [0..<13]) = 13"
    by (simp add: every_insert_ok_def)
  have f: "length (sale_payments shop_db) = 0"
    by (simp add: shop_db_def)
  have g: "12 < length (replicate 13 ''2024-01-15'')"
    by simp
  from record_sale_accepts_any_count [OF a b, of "''2024-01-10 12:00:00''" every_insert_ok
      "replicate 13 ''2024-01-15''"]
  show ?thesis
    unfolding Let_def c using a b e f g by simp
qed

text \<open>
  Claim C4 as stated fails: the counts 13, 0 and -2 are accepted. The call succeeds, the
  sale is stored with \<open>num_installments\<close> 13, 1 and -2, and for 13 the installments 1 to 13
  are stored.
\<close>

theorem record_sale_count_counterexample:
  "snd (record_sale ''2024-01-10 12:00:00'' True every_insert_ok shop_db (sale_request 1 4 13))
     = Inr ()
   \<and> map s_num_installments
       (sales (fst (record_sale ''2024-01-10 12:00:00'' True every_insert_ok shop_db
          (sale_request 1 4 13)))) = [13]
   \<and> map sp_installment_index
       (sale_payments (fst (record_sale ''2024-01-10 12:00:00'' True every_insert_ok shop_db
          (sale_request 1 4 13)))) = [1, 2, 3, 4, 5, 6, 7, 8, 9, 10, 11, 12, 13]
   \<and> snd (record_sale ''2024-01-10 12:00:00'' True every_insert_ok shop_db (sale_request 1 4 0))
       = Inr ()
   \<and> map s_num_installments
       (sales (fst (record_sale ''2024-01-10 12:00:00'' True every_insert_ok shop_db
          (sale_request 1 4 0)))) = [1]
   \<and> snd (record_sale ''2024-01-10 12:00:00'' True every_insert_ok shop_db (sale_request 1 4 (- 2)))
       = Inr ()
   \<and> map s_num_installments
       (sales (fst (record_sale ''2024-01-10 12:00:00'' True every_insert_ok shop_db
          (sale_request 1 4 (- 2))))) = [- 2]"
  by code_simp

text \<open>
  Claim C6. \<open>record_sale\<close> fails with \<open>ProductNotFound\<close> when the product does not
  exist, and with \<open>InvalidQuantity\<close> when the product exists and the quantity is not
  positive; the product is looked up first. In both cases the store is returned as it was:
  no sale row, no installment row and no log entry is written, whatever the store would
  have answered to a write.
\<close>

theorem record_sale_validation:
  "(get_product_by_id d (product_id args) = None \<longrightarrow>
      record_sale now sale_ok pay_ok d args = (d, Inl ProductNotFound))
   \<and> (get_product_by_id d (product_id args) \<noteq> None \<and> quantity args \<le> 0 \<longrightarrow>
      record_sale now sale_ok pay_ok d args = (d, Inl InvalidQuantity))"
  by (auto simp: record_sale_def)

text \<open>
  On the store with the products 1 and 2: a sale of product 7 fails with
  \<open>ProductNotFound\<close>, a sale of 0 units of product 1 fails with \<open>InvalidQuantity\<close>, and the
  store is unchanged both times.
\<close>

theorem record_sale_validation_witness:
  "get_product_by_id shop_db (product_id (sale_request 7 4 1)) = None
   \<and> record_sale ''2024-01-10 12:00:00'' True every_insert_ok shop_db (sale_request 7 4 1)
       = (shop_db, Inl ProductNotFound)
   \<and> get_product_by_id shop_db (product_id (sale_request 1 0 3)) \<noteq> None
   \<and> quantity (sale_request 1 0 3) \<le> 0
   \<and> record_sale ''2024-01-10 12:00:00'' True every_insert_ok shop_db (sale_request 1 0 3)
       = (shop_db, Inl InvalidQuantity)"
proof -
  have a: "get_product_by_id shop_db (product_id (sale_request 7 4 1)) = None"
    by code_simp
  have b: "get_product_by_id shop_db (product_id (sale_request 1 0 3)) \<noteq> None"
    by code_simp
  have c: "quantity (sale_request 1 0 3) \<le> 0"
    by (simp add: sale_request_def)
  from record_sale_validation [of shop_db "sale_request 7 4 1" "''2024-01-10 12:00:00''" True
      every_insert_ok] a
  have e: "record_sale ''2024-01-10 12:00:00'' True every_insert_ok shop_db (sale_request 7 4 1)
       = (shop_db, Inl ProductNotFound)"
    by blast
  from record_sale_validation [of shop_db "sale_request 1 0 3" "''2024-01-10 12:00:00''" True
      every_insert_ok] b c
  have f: "record_sale ''2024-01-10 12:00:00'' True every_insert_ok shop_db (sale_request 1 0 3)
       = (shop_db, Inl InvalidQuantity)"
    by blast
  from a e b c f show ?thesis
    by blast
qed

section \<open>Date validation\<close>

lemma dates_loop_iff:
  "dates_loop ds \<longleftrightarrow> (\<forall>d \<in> set ds. validate_date_ymd (convert_br_to_iso d))"
proof (induction ds)
  case Nil
  show ?case by simp
next
  case (Cons d ds)
  have "\<not> validate_date_ymd (convert_br_to_iso [])"
    by (simp add: convert_br_to_iso_def br_match_def validate_date_ymd_def)
  with Cons show ?case
    by auto
qed

lemma strptime_ymd_third_digit:
  assumes "strptime_ymd s = Some r"
  shows "is_digit (s ! 2)"
proof -
  from assms obtain y1 y2 y3 y4 dash rest where s: "s = y1 # y2 # y3 # y4 # dash # rest"
    by (auto simp: strptime_ymd_def split: list.splits)
  from assms have "is_digit y3"
    unfolding s by (auto simp: strptime_ymd_def split: if_splits)
  then show ?thesis
    by (simp add: s)
qed

lemma br_match_not_ymd: "br_match s \<Longrightarrow> \<not> validate_date_ymd s"
proof
  assume m: "br_match s" and v: "validate_date_ymd s"
  from v obtain r where "strptime_ymd s = Some r"
    by (auto simp: validate_date_ymd_def split: if_splits option.splits)
  then have "is_digit (s ! 2)"
    by (rule strptime_ymd_third_digit)
  moreover from m have "s ! 2 = CHR ''/''"
    by (simp add: br_match_def)
  ultimately show False
    by (simp add: is_digit_def)
qed

lemma convert_accepts_iff:
  "validate_date_ymd (convert_br_to_iso d)
     \<longleftrightarrow> validate_date_ymd d \<or> (br_match d \<and> validate_date_ymd (convert_br_to_iso d))"
proof (cases "br_match d")
  case True
  then show ?thesis
    using br_match_not_ymd [of d] by simp
next
  case False
  then show ?thesis
    by (simp add: convert_br_to_iso_def)
qed

text \<open>
  Claim C5, as amended. \<open>validate_installment_dates\<close> accepts a list of due dates if and
  only if the list has at most 12 entries and either it is a single entry that is blank
  (empty or white space only), or every entry parses as \<^verbatim>\<open>YYYY-MM-DD\<close> or has the shape
  \<^verbatim>\<open>DD/MM/YYYY\<close> and parses once it is converted. So any other blank or unparseable entry
  makes the validation fail, and so do more than 12 entries, whatever the entries are.
\<close>

theorem installment_dates_accepted_iff:
  "validate_installment_dates dates \<longleftrightarrow>
     length dates \<le> 12
     \<and> ((length dates = 1 \<and> py_strip (hd dates) = [])
        \<or> (\<forall>d \<in> set dates.
              validate_date_ymd d
              \<or> (br_match d \<and> validate_date_ymd (convert_br_to_iso d))))"
proof -
  have blank: "hd dates = [] \<or> py_strip (hd dates) = [] \<longleftrightarrow> py_strip (hd dates) = []"
    by (auto simp: py_strip_def)
  have "validate_installment_dates dates \<longleftrightarrow>
     length dates \<le> 12
     \<and> ((length dates = 1 \<and> py_strip (hd dates) = [])
        \<or> (\<forall>d \<in> set dates. validate_date_ymd (convert_br_to_iso d)))"
    unfolding validate_installment_dates_def blank dates_loop_iff by auto
  then show ?thesis
    using convert_accepts_iff by simp
qed

text \<open>
  Two dates, one in each format, are accepted; a single entry of two spaces is accepted; the
  single entry \<^verbatim>\<open>2024-02-30\<close>, which is no date of the calendar, is rejected.
\<close>

theorem installment_dates_accepted_iff_witness:
  "length [''2024-01-15'', ''15/02/2024''] \<le> 12
   \<and> validate_date_ymd ''2024-01-15''
   \<and> br_match ''15/02/2024''
   \<and> convert_br_to_iso ''15/02/2024'' = ''2024-02-15''
   \<and> validate_date_ymd (convert_br_to_iso ''15/02/2024'')
   \<and> validate_installment_dates [''2024-01-15'', ''15/02/2024'']
   \<and> length [''  ''] = 1 \<and> py_strip (hd [''  '']) = []
   \<and> validate_installment_dates [''  '']
   \<and> \<not> validate_date_ymd ''2024-02-30'' \<and> \<not> br_match ''2024-02-30''
   \<and> py_strip (hd [''2024-02-30'']) \<noteq> []
   \<and> \<not> validate_installment_dates [''2024-02-30'']"
proof -
  have a: "validate_date_ymd ''2024-01-15''"
    by code_simp
  have b: "br_match ''15/02/2024''"
    by code_simp
  have c: "convert_br_to_iso ''15/02/2024'' = ''2024-02-15''"
    by code_simp
  have e: "validate_date_ymd (convert_br_to_iso ''15/02/2024'')"
    by code_simp
  have f: "py_strip (hd [''  '']) = []"
    by code_simp
  have g: "\<not> validate_date_ymd ''2024-02-30''" "\<not> br_match ''2024-02-30''"
    "py_strip (hd [''2024-02-30'']) \<noteq> []"
    by code_simp+
  from installment_dates_accepted_iff [of "[''2024-01-15'', ''15/02/2024'']"] a b e
  have h: "validate_installment_dates [''2024-01-15'', ''15/02/2024'']"
    by simp
  from installment_dates_accepted_iff [of "[''  '']"] f
  have i: "validate_installment_dates [''  '']"
    by simp
  from installment_dates_accepted_iff [of "[''2024-02-30'']"] g
  have j: "\<not> validate_installment_dates [''2024-02-30'']"
    by simp
  from a b c e f g h i j show ?thesis
    by simp
qed

text \<open>
  Claim C5 as stated fails on a list of 13 dates: every entry parses as \<^verbatim>\<open>YYYY-MM-DD\<close>,
  and the list is rejected.
\<close>

theorem installment_dates_thirteen_counterexample:
  "validate_date_ymd ''2024-01-15''
   \<and> set (replicate 13 ''2024-01-15'') = {''2024-01-15''}
   \<and> \<not> validate_installment_dates (replicate 13 ''2024-01-15'')"
proof -
  have "validate_date_ymd ''2024-01-15''"
    by code_simp
  moreover have "\<not> validate_installment_dates (replicate 13 ''2024-01-15'')"
    by (simp add: validate_installment_dates_def)
  ultimately show ?thesis
    by simp
qed

section \<open>Payment status\<close>

lemma sql_update_nth:
  "i < length rows \<Longrightarrow>
     sql_update cond assign rows ! i = (if cond (rows ! i) then assign (rows ! i) else rows ! i)"
  by (simp add: sql_update_def)

lemma sql_update_length: "length (sql_update cond assign rows) = length rows"
  by (simp add: sql_update_def)

text \<open>
  Claim C8. For every sale, \<open>update_payment_status_db\<close> with the status \<^verbatim>\<open>Pago\<close> succeeds
  and rewrites exactly the installments of that sale that are not yet paid: each becomes
  paid, dated with the current time and with the given payment method (the empty string
  when none is given). Installments of the sale that are already paid and installments of
  every other sale stay as they are. With the status \<^verbatim>\<open>Em Aberto\<close> every installment of
  the sale gets \<open>paid\<close> false and an empty \<open>paid_date\<close> and \<open>payment_method\<close>, and those of
  every other sale stay as they are. No installment row is added or removed.
\<close>

theorem bulk_status_update:
  "(let r = update_payment_status_db now True d sale_id (Text ''Pago'') method;
        d' = fst r
    in snd r = Inr ()
       \<and> length (sale_payments d') = length (sale_payments d)
       \<and> (\<forall>i < length (sale_payments d).
            sale_payments d' ! i =
              (let p = sale_payments d ! i
               in if sp_sale_id p = sale_id \<and> \<not> sp_paid p
                  then p\<lparr>sp_paid := True, sp_paid_date := Some now,
                         sp_payment_method := Some (or_empty method)\<rparr>
                  else p)))
   \<and> (let r = update_payment_status_db now True d sale_id (Text ''Em Aberto'') method;
          d' = fst r
      in snd r = Inr ()
         \<and> length (sale_payments d') = length (sale_payments d)
         \<and> (\<forall>i < length (sale_payments d).
              sale_payments d' ! i =
                (let p = sale_payments d ! i
                 in if sp_sale_id p = sale_id
                    then p\<lparr>sp_paid := False, sp_paid_date := Some [],
                           sp_payment_method := Some []\<rparr>
                    else p)))"
  by (simp add: update_payment_status_db_def update_bulk_def Let_def sql_update_nth
      sql_update_length mark_paid_def mark_open_def)

text \<open>
  On the store with two sales of two installments each, for sale 1: \<^verbatim>\<open>Pago\<close> leaves its
  first installment, paid in February by pix, as it is, marks its second installment paid
  now by card, and leaves the open installment of sale 2 open; \<^verbatim>\<open>Em Aberto\<close> clears the
  first installment and leaves sale 2 as it is.
\<close>

theorem bulk_status_update_witness:
  "(1::nat) < length (sale_payments ledger_db)
   \<and> sale_payments ledger_db ! 0
       = installment_row 1 1 1 50 True (Some ''2024-02-01 09:00:00'') (Some ''pix'')
   \<and> sale_payments ledger_db ! 1 = installment_row 2 1 2 50 False None None
   \<and> sale_payments ledger_db ! 2 = installment_row 3 2 1 50 False None None
   \<and> sale_payments
        (fst (update_payment_status_db ''2024-03-05 17:30:00'' True ledger_db 1 (Text ''Pago'')
           (Some ''cartao''))) ! 0
       = installment_row 1 1 1 50 True (Some ''2024-02-01 09:00:00'') (Some ''pix'')
   \<and> sale_payments
        (fst (update_payment_status_db ''2024-03-05 17:30:00'' True ledger_db 1 (Text ''Pago'')
           (Some ''cartao''))) ! 1
       = installment_row 2 1 2 50 True (Some ''2024-03-05 17:30:00'') (Some ''cartao'')
   \<and> sale_payments
        (fst (update_payment_status_db ''2024-03-05 17:30:00'' True ledger_db 1 (Text ''Pago'')
           (Some ''cartao''))) ! 2
       = installment_row 3 2 1 50 False None None
   \<and> sale_payments
        (fst (update_payment_status_db ''2024-03-05 17:30:00'' True ledger_db 1
           (Text ''Em Aberto'') None)) ! 0
       = installment_row 1 1 1 50 False (Some []) (Some [])
   \<and> sale_payments
        (fst (update_payment_status_db ''2024-03-05 17:30:00'' True ledger_db 1
           (Text ''Em Aberto'') None)) ! 2
       = installment_row 3 2 1 50 False None None"
proof -
  have len: "length (sale_payments ledger_db) = 4"
    by (simp add: ledger_db_def)
  note inst = bulk_status_update [of "''2024-03-05 17:30:00''" ledger_db 1 "Some ''cartao''",
      unfolded Let_def len]
  note inst' = bulk_status_update [of "''2024-03-05 17:30:00''" ledger_db 1 None,
      unfolded Let_def len]
  from inst have paid:
    "\<forall>i < 4. sale_payments
        (fst (update_payment_status_db ''2024-03-05 17:30:00'' True ledger_db 1 (Text ''Pago'')
           (Some ''cartao''))) ! i =
       (if sp_sale_id (sale_payments ledger_db ! i) = 1 \<and> \<not> sp_paid (sale_payments ledger_db ! i)
        then (sale_payments ledger_db ! i)\<lparr>sp_paid := True,
               sp_paid_date := Some ''2024-03-05 17:30:00'',
               sp_payment_method := Some (or_empty (Some ''cartao''))\<rparr>
        else sale_payments ledger_db ! i)"
    by blast
  from inst' have opened:
    "\<forall>i < 4. sale_payments
        (fst (update_payment_status_db ''2024-03-05 17:30:00'' True ledger_db 1
           (Text ''Em Aberto'') None)) ! i =
       (if sp_sale_id (sale_payments ledger_db ! i) = 1
        then (sale_payments ledger_db ! i)\<lparr>sp_paid := False, sp_paid_date := Some [],
               sp_payment_method := Some []\<rparr>
        else sale_payments ledger_db ! i)"
    by blast
  have p0: "(0::nat) < 4" and p1: "(1::nat) < 4" and p2: "(2::nat) < 4"
    by simp_all
  show ?thesis
    using paid [rule_format, OF p0] paid [rule_format, OF p1] paid [rule_format, OF p2]
      opened [rule_format, OF p0] opened [rule_format, OF p2]
    by (simp add: ledger_db_def installment_row_def or_empty_def)
qed

text \<open>
  Claim C7 asks that marking an installment paid a second time leaves its \<open>paid_date\<close> and
  \<open>payment_method\<close> as the first marking set them. The single-row case of
  \<open>update_payment_status_db\<close> does not do that. Installment 2 of the store below is open;
  it is marked paid on 1 March by pix and marked paid again on 5 March in cash: after the
  second call it is dated 5 March and paid in cash. The case for a whole sale guards its
  update with \<^verbatim>\<open>AND paid = 0\<close>: run instead of the second call, it leaves the row as the
  first marking set it.
\<close>

theorem mark_paid_twice_overwrites:
  "sale_payments ledger_db ! 1 = installment_row 2 1 2 50 False None None
   \<and> snd (update_payment_status_db ''2024-03-01 09:00:00'' True ledger_db 2 (Flag True)
          (Some ''pix'')) = Inr ()
   \<and> sale_payments
        (fst (update_payment_status_db ''2024-03-01 09:00:00'' True ledger_db 2 (Flag True)
           (Some ''pix''))) ! 1
       = installment_row 2 1 2 50 True (Some ''2024-03-01 09:00:00'') (Some ''pix'')
   \<and> sale_payments
        (fst (update_payment_status_db ''2024-03-05 17:30:00'' True
           (fst (update_payment_status_db ''2024-03-01 09:00:00'' True ledger_db 2 (Flag True)
              (Some ''pix'')))
           2 (Flag True) (Some ''dinheiro''))) ! 1
       = installment_row 2 1 2 50 True (Some ''2024-03-05 17:30:00'') (Some ''dinheiro'')
   \<and> sale_payments
        (fst (update_payment_status_db ''2024-03-05 17:30:00'' True
           (fst (update_payment_status_db ''2024-03-01 09:00:00'' True ledger_db 2 (Flag True)
              (Some ''pix'')))
           1 (Text ''Pago'') (Some ''dinheiro''))) ! 1
       = installment_row 2 1 2 50 True (Some ''2024-03-01 09:00:00'') (Some ''pix'')"
  by (simp add: update_payment_status_db_def update_single_def update_bulk_def sql_update_def
      mark_paid_def ledger_db_def installment_row_def or_empty_def)

section \<open>Deleting a sale\<close>

text \<open>
  Claim C9. \<open>delete_sale\<close> removes from \<open>sales\<close> the rows with the given id and no other
  row, and reports success. The installment rows are all kept as they are, those of the
  deleted sale included, which are orphaned; the rows of \<open>products\<close> and \<open>users\<close> are kept
  as they are, also when the store fails. No row of the activity log is changed or removed:
  the call appends its one entry \<^verbatim>\<open>EXCLUIR_VENDA\<close> to it.
\<close>

theorem delete_sale_frame:
  "snd (delete_sale now True d sale_id) = True
   \<and> sales (fst (delete_sale now True d sale_id)) = filter (\<lambda>s. s_id s \<noteq> sale_id) (sales d)
   \<and> sale_payments (fst (delete_sale now store_ok d sale_id)) = sale_payments d
   \<and> payments_of (fst (delete_sale now store_ok d sale_id)) sale_id = payments_of d sale_id
   \<and> products (fst (delete_sale now store_ok d sale_id)) = products d
   \<and> users (fst (delete_sale now store_ok d sale_id)) = users d
   \<and> activity_log (fst (delete_sale now True d sale_id))
       = activity_log d @ [\<lparr>a_date = now, a_user_id = 1, a_action = ''EXCLUIR_VENDA''\<rparr>]"
  by (simp add: delete_sale_def log_activity_def payments_of_def)

text \<open>
  Deleting sale 1 from the store with two sales leaves sale 2 and keeps both installments of
  sale 1.
\<close>

theorem delete_sale_frame_example:
  "map s_id (sales (fst (delete_sale ''2024-03-05 17:30:00'' True ledger_db 1))) = [2]
   \<and> sales (fst (delete_sale ''2024-03-05 17:30:00'' True ledger_db 1)) = [sale_row 2 100 2]
   \<and> payments_of (fst (delete_sale ''2024-03-05 17:30:00'' True ledger_db 1)) 1
       = [installment_row 1 1 1 50 True (Some ''2024-02-01 09:00:00'') (Some ''pix''),
          installment_row 2 1 2 50 False None None]"
  using delete_sale_frame [of "''2024-03-05 17:30:00''" ledger_db 1 True]
  by (simp add: ledger_db_def payments_of_def sale_row_def installment_row_def)

end
